theory Spec2Isabelle
  imports Main "HOL-Library.Char_ord" "HOL-Library.List_Lexorder" "HOL-Library.Product_Lexorder"
begin

section \<open>Go values the client works with\<close>

text \<open>
  The package \<open>mcp\<close> is a thin HTTP/JSON client. Its transport core (\<open>WithBaseURL\<close>,
  \<open>NewClient\<close>, \<open>parseRate\<close>, \<open>newResponse\<close>, \<open>Do\<close>) is embedded below function by
  function. Values of the Go standard library appear as follows.

  \<^item> A \<open>time.Time\<close> is its distance from the zero time, so \<open>IsZero t\<close> is \<open>t = 0\<close>.
  \<^item> A \<open>context.Context\<close> is what its \<open>Err()\<close> yields when \<open>Do\<close> looks at it: \<open>None\<close>
    while the context is live. A nil context is \<open>None\<close> one level up.
  \<^item> A Go \<open>error\<close> is a value of \<open>go_error\<close>; a nil error is \<open>None\<close>.
\<close>

type_synonym time = int

datatype ctx_err = Canceled | DeadlineExceeded

type_synonym go_context = "ctx_err option"

record Rate =
  Limit :: int
  Remaining :: int
  Reset :: time

record URL =
  Scheme :: string
  Host :: string
  Path :: string
  RawQuery :: string

text \<open>
  \<open>http.Header\<close> with its keys in canonical form (\<open>X-Ratelimit-Limit\<close>), one value per
  key; \<open>Header_Get\<close> is \<open>Header.Get\<close> applied to a key already canonical, and yields the
  empty string for a key that is absent.
\<close>

type_synonym http_Header = "(string \<times> string) list"

definition Header_Get :: "http_Header \<Rightarrow> string \<Rightarrow> string" where
  "Header_Get h k = (case map_of h k of None \<Rightarrow> [] | Some v \<Rightarrow> v)"

record http_Response =
  StatusCode :: int
  Header :: http_Header
  Body :: string

record http_Request =
  Method :: string
  req_URL :: URL
  req_Header :: http_Header
  req_Body :: "string option"
  req_ctx :: "go_context option"

text \<open>
  The errors the package returns. \<open>Errorf\<close> is \<open>fmt.Errorf\<close> with its message formatted,
  \<open>Errorw\<close> is \<open>fmt.Errorf\<close> with a \<open>%w\<close> verb (message prefix and wrapped error),
  \<open>ContextErr\<close> is \<open>ctx.Err()\<close>, \<open>LibError\<close> is an error value of a library the package
  calls (URL parsing, the HTTP round trip, JSON encoding), \<open>IoEOF\<close> is \<open>io.EOF\<close>,
  \<open>JsonSyntaxError\<close> is a \<open>*json.SyntaxError\<close> and \<open>JsonUnmarshalError\<close> any other error
  of the JSON decoder. \<open>ErrorResponse\<close> and \<open>RateLimitError\<close> are the package's two
  API error types with the fields its callers read (\<open>Response\<close>, \<open>Message\<close>, \<open>Errors\<close>
  as field/message pairs; \<open>Rate\<close>, \<open>Response\<close>, \<open>Message\<close>).
\<close>

datatype go_error =
    Errorf string
  | Errorw string go_error
  | ContextErr ctx_err
  | LibError string
  | IoEOF
  | JsonSyntaxError string
  | JsonUnmarshalError string
  | ErrorResponse http_Response string "(string \<times> string) list"
  | RateLimitError Rate http_Response string

text \<open>
  The functions of the Go standard library (and of \<open>go-querystring\<close>) whose results the
  package only passes on are the fields of a record: \<open>url.Parse\<close>, \<open>(*URL).String\<close>,
  \<open>(*URL).Parse\<close> (a reference resolved against a base), \<open>url.QueryEscape\<close>,
  \<open>url.PathEscape\<close>, \<open>http.NewRequest\<close>, \<open>time.Parse\<close> and \<open>Time.Format\<close> with the
  layout \<open>time.RFC3339\<close>, the decoding of the JSON error payload
  \<open>{"message": _, "errors": [{"field": _, "message": _}]}\<close>, and the network as a fresh
  \<open>http.Client\<close> reaches it.
\<close>

record golib =
  url_Parse :: "string \<Rightarrow> go_error + URL"
  url_String :: "URL \<Rightarrow> string"
  url_ResolveRef :: "URL \<Rightarrow> string \<Rightarrow> go_error + URL"
  url_QueryEscape :: "string \<Rightarrow> string"
  url_PathEscape :: "string \<Rightarrow> string"
  http_NewRequest :: "string \<Rightarrow> string \<Rightarrow> string option \<Rightarrow> go_error + http_Request"
  time_Parse_RFC3339 :: "string \<Rightarrow> go_error + time"
  time_Format_RFC3339 :: "time \<Rightarrow> string"
  json_error_payload :: "string \<Rightarrow> string \<times> (string \<times> string) list"
  http_DefaultClient :: "http_Request list \<Rightarrow> http_Request \<Rightarrow> go_error + http_Response"

text \<open>
  \<open>Response\<close> wraps the \<open>http.Response\<close> and adds the rate and the next cursor. The
  \<open>Client\<close> holds the base URL, the user agent and the rate cache keyed by request path.
  Its \<open>http.Client\<close> is the function \<open>client\<close>: the outcome of a round trip, given the
  requests sent before it and the request; \<open>wire\<close> records the requests handed to it,
  oldest first.
\<close>

record Response =
  Response :: http_Response
  Rate :: Rate
  NextCursor :: string

record Client =
  client :: "http_Request list \<Rightarrow> http_Request \<Rightarrow> go_error + http_Response"
  wire :: "http_Request list"
  BaseURL :: URL
  UserAgent :: string
  rateLimits :: "string \<rightharpoonup> Rate"

section \<open>Rate-limit headers\<close>

text \<open>
  \<open>fmt.Sscanf(s, "%d", &x)\<close>: blanks are skipped, an optional sign and at least one
  decimal digit are read, what follows is left unread. \<open>Sscanf_d s\<close> is \<open>Some n\<close> when \<open>x\<close>
  is set to \<open>n\<close> and \<open>None\<close> when the scan fails and \<open>x\<close> keeps its value (no digit, or a
  number outside the 64-bit range).
\<close>

definition is_digit :: "char \<Rightarrow> bool" where
  "is_digit c = (c \<in> set ''0123456789'')"

definition digit_val :: "char \<Rightarrow> nat" where
  "digit_val c = of_char c - 48"

definition decimal :: "string \<Rightarrow> nat" where
  "decimal ds = foldl (\<lambda>n c. 10 * n + digit_val c) 0 ds"

definition is_blank :: "char \<Rightarrow> bool" where
  "is_blank c = (c = CHR '' '' \<or> c = CHR 0x09)"

definition Sscanf_d :: "string \<Rightarrow> int option" where
  "Sscanf_d s =
     (let s1 = dropWhile is_blank s;
          neg = (s1 \<noteq> [] \<and> hd s1 = CHR ''-'');
          s2 = (if s1 \<noteq> [] \<and> (hd s1 = CHR ''-'' \<or> hd s1 = CHR ''+'') then tl s1 else s1);
          ds = takeWhile is_digit s2;
          n = (if neg then - int (decimal ds) else int (decimal ds))
      in if ds = [] \<or> n < - (2 ^ 63) \<or> 2 ^ 63 \<le> n then None else Some n)"

definition parseRate :: "golib \<Rightarrow> http_Response \<Rightarrow> Rate" where
  "parseRate L r =
     (let rate0 = \<lparr>Limit = 0, Remaining = 0, Reset = 0\<rparr>;
          limit = Header_Get (Header r) ''X-Ratelimit-Limit'';
          rate1 = (if limit \<noteq> [] then
                     (case Sscanf_d limit of None \<Rightarrow> rate0 | Some n \<Rightarrow> rate0\<lparr>Limit := n\<rparr>)
                   else rate0);
          remaining = Header_Get (Header r) ''X-Ratelimit-Remaining'';
          rate2 = (if remaining \<noteq> [] then
                     (case Sscanf_d remaining of None \<Rightarrow> rate1 | Some n \<Rightarrow> rate1\<lparr>Remaining := n\<rparr>)
                   else rate1);
          reset = Header_Get (Header r) ''X-Ratelimit-Reset''
      in if reset \<noteq> [] then
           (let v = (case time_Parse_RFC3339 L reset of Inl e \<Rightarrow> 0 | Inr t \<Rightarrow> t)
            in if v \<noteq> 0 then rate2\<lparr>Reset := v\<rparr> else rate2)
         else rate2)"

definition newResponse :: "golib \<Rightarrow> http_Response \<Rightarrow> Response" where
  "newResponse L r = \<lparr>Response = r, Rate = parseRate L r, NextCursor = []\<rparr>"

section \<open>Classifying a response\<close>

text \<open>
  Modelled from the spec: \<open>CheckResponse\<close> is called by \<open>Do\<close> but its file (the package's
  error types) is not among the sources. Section 4.1 of the specification: a 2xx status
  is no error; on any other status the body is parsed as the error payload and returned
  as an API error carrying the response, the message and the details; on status 429 the
  error is a \<open>RateLimitError\<close> carrying the rate state of the response instead.
\<close>

definition CheckResponse :: "golib \<Rightarrow> http_Response \<Rightarrow> go_error option" where
  "CheckResponse L r =
     (if 200 \<le> StatusCode r \<and> StatusCode r \<le> 299 then None
      else (case json_error_payload L (Body r) of (msg, errs) \<Rightarrow>
        if StatusCode r = 429 then Some (RateLimitError (parseRate L r) r msg)
        else Some (ErrorResponse r msg errs)))"

section \<open>Executing a request\<close>

text \<open>
  The third argument of \<open>Do\<close> is the Go value \<open>v\<close>: nil, an \<open>io.Writer\<close> (with what has
  been written to it), or a pointer to a value to decode into (with the value it holds).

  \<open>json.NewDecoder(body).Decode(v)\<close>: on a body with nothing but JSON white space the
  decoder reports \<open>io.EOF\<close> and leaves \<open>v\<close> alone; on any other body the result is that of
  the decoder for the type of \<open>v\<close>, the argument \<open>dec\<close>: the error if any, and the value
  \<open>v\<close> holds afterwards.
\<close>

datatype 'v out = NoOut | Writer string | Target 'v

definition json_space :: "char \<Rightarrow> bool" where
  "json_space c = (c = CHR '' '' \<or> c = CHR 0x09 \<or> c = CHR 0x0D \<or> c = CHR 0x0A)"

definition Decode :: "(string \<Rightarrow> 'v \<Rightarrow> go_error option \<times> 'v) \<Rightarrow> string \<Rightarrow> 'v \<Rightarrow> go_error option \<times> 'v" where
  "Decode dec body v = (if list_all json_space body then (Some IoEOF, v) else dec body v)"

definition Do :: "golib \<Rightarrow> (string \<Rightarrow> 'v \<Rightarrow> go_error option \<times> 'v) \<Rightarrow> go_context option \<Rightarrow>
    http_Request \<Rightarrow> 'v out \<Rightarrow> Client \<Rightarrow> (Response option \<times> go_error option \<times> 'v out) \<times> Client" where
  "Do L dec ctx req0 v c =
     (case ctx of
        None \<Rightarrow> ((None, Some (Errorf ''context must be non-nil''), v), c)
      | Some cx \<Rightarrow>
          (let req = req0\<lparr>req_ctx := Some cx\<rparr>;
               c1 = c\<lparr>wire := wire c @ [req]\<rparr>
           in case client c (wire c) req of
                Inl err \<Rightarrow>
                  (case cx of
                     Some ce \<Rightarrow> ((None, Some (ContextErr ce), v), c1)
                   | None \<Rightarrow> ((None, Some err, v), c1))
              | Inr resp \<Rightarrow>
                  (let response = newResponse L resp;
                       c2 = c1\<lparr>rateLimits := (rateLimits c1)(Path (req_URL req) \<mapsto> Rate response)\<rparr>
                   in case CheckResponse L resp of
                        Some err \<Rightarrow> ((Some response, Some err, v), c2)
                      | None \<Rightarrow>
                          (case v of
                             NoOut \<Rightarrow> ((Some response, None, v), c2)
                           | Writer w \<Rightarrow> ((Some response, None, Writer (w @ Body resp)), c2)
                           | Target x \<Rightarrow>
                               (case Decode dec (Body resp) x of (decErr, x') \<Rightarrow>
                                  (let decErr' = (if decErr = Some IoEOF then None else decErr)
                                   in ((Some response, decErr', Target x'), c2)))))))"

section \<open>Constructing the client\<close>

definition defaultBaseURL :: string where
  "defaultBaseURL = ''https://registry.modelcontextprotocol.io/''"

definition userAgent :: string where
  "userAgent = ''go-mcp-registry/v0.1.0''"

definition mediaTypeJSON :: string where
  "mediaTypeJSON = ''application/json''"

definition HasSuffix :: "string \<Rightarrow> string \<Rightarrow> bool" where
  "HasSuffix s suffix =
     (length suffix \<le> length s \<and> drop (length s - length suffix) s = suffix)"

text \<open>
  An \<open>Option\<close> configures a client or fails; a failed option leaves no client behind.
  \<open>WithBaseURL\<close> checks the string, parses it, checks the scheme and makes the path end
  in a slash.
\<close>

type_synonym Option = "Client \<Rightarrow> go_error + Client"

definition WithBaseURL :: "golib \<Rightarrow> string \<Rightarrow> Option" where
  "WithBaseURL L baseURL c =
     (if baseURL = [] then Inl (Errorf ''base URL cannot be empty'')
      else case url_Parse L baseURL of
        Inl err \<Rightarrow> Inl (Errorw ''invalid base URL: '' err)
      | Inr parsedURL \<Rightarrow>
          if Scheme parsedURL \<noteq> ''http'' \<and> Scheme parsedURL \<noteq> ''https''
          then Inl (Errorf (''base URL must use HTTP or HTTPS scheme, got: '' @ Scheme parsedURL))
          else Inr (c\<lparr>BaseURL :=
                 (if \<not> HasSuffix (Path parsedURL) ''/''
                  then parsedURL\<lparr>Path := Path parsedURL @ ''/''\<rparr>
                  else parsedURL)\<rparr>))"

fun apply_opts :: "Option list \<Rightarrow> Client \<Rightarrow> go_error + Client" where
  "apply_opts [] c = Inr c"
| "apply_opts (opt # opts) c = (case opt c of Inl err \<Rightarrow> Inl err | Inr c' \<Rightarrow> apply_opts opts c')"

text \<open>
  \<open>NewClient\<close>: a nil \<open>httpClient\<close> (\<open>None\<close>) is replaced by a fresh one, the default base
  URL is parsed, and the options are applied in order; the first failing option aborts
  the construction.
\<close>

definition NewClient :: "golib \<Rightarrow> (http_Request list \<Rightarrow> http_Request \<Rightarrow> go_error + http_Response) option \<Rightarrow>
    Option list \<Rightarrow> go_error + Client" where
  "NewClient L httpClient opts =
     (let hc = (case httpClient of None \<Rightarrow> http_DefaultClient L | Some h \<Rightarrow> h)
      in case url_Parse L defaultBaseURL of
           Inl err \<Rightarrow> Inl (Errorw ''failed to parse default base URL: '' err)
         | Inr baseURL \<Rightarrow>
             apply_opts opts
               \<lparr>client = hc, wire = [], BaseURL = baseURL, UserAgent = userAgent,
                rateLimits = Map.empty\<rparr>)"

section \<open>Building a request\<close>

definition Header_Set :: "http_Header \<Rightarrow> string \<Rightarrow> string \<Rightarrow> http_Header" where
  "Header_Set h k v = (k, v) # filter (\<lambda>kv. fst kv \<noteq> k) h"

text \<open>
  \<open>NewRequest\<close>. The body is given as what \<open>json.Encoder.Encode\<close> yields for it (\<open>None\<close>
  for a nil body). Header keys are canonical.
\<close>

definition NewRequest :: "golib \<Rightarrow> string \<Rightarrow> string \<Rightarrow> (go_error + string) option \<Rightarrow> Client \<Rightarrow>
    go_error + http_Request" where
  "NewRequest L method urlStr body c =
     (if \<not> HasSuffix (Path (BaseURL c)) ''/''
      then Inl (Errorf (''BaseURL must have a trailing slash, but '' @ [CHR 0x22] @
                  url_String L (BaseURL c) @ [CHR 0x22] @ '' does not''))
      else case url_ResolveRef L (BaseURL c) urlStr of
        Inl err \<Rightarrow> Inl err
      | Inr u \<Rightarrow>
          (case body of
             Some (Inl err) \<Rightarrow> Inl err
           | _ \<Rightarrow>
               (let buf = (case body of Some (Inr b) \<Rightarrow> Some b | _ \<Rightarrow> None)
                in case http_NewRequest L method (url_String L u) buf of
                     Inl err \<Rightarrow> Inl err
                   | Inr req \<Rightarrow>
                       (let h1 = (if body \<noteq> None
                                  then Header_Set (req_Header req) ''Content-Type'' mediaTypeJSON
                                  else req_Header req);
                            h2 = Header_Set h1 ''Accept'' mediaTypeJSON;
                            h3 = (if UserAgent c \<noteq> [] then Header_Set h2 ''User-Agent'' (UserAgent c)
                                  else h2)
                        in Inr (req\<lparr>req_Header := h3\<rparr>)))))"

text \<open>
  \<open>addOptions\<close>. Its second argument is what \<open>query.Values(opts)\<close> yields: an error, or
  the parameters as key/value pairs sorted by key, the order in which \<open>Encode\<close> writes
  them.
\<close>

definition join :: "string \<Rightarrow> string list \<Rightarrow> string" where
  "join sep xs = (case xs of [] \<Rightarrow> [] | x # rest \<Rightarrow> foldl (\<lambda>acc y. acc @ sep @ y) x rest)"

definition Values_Encode :: "golib \<Rightarrow> (string \<times> string) list \<Rightarrow> string" where
  "Values_Encode L v = join ''&'' (map (\<lambda>(k, x). url_QueryEscape L k @ ''='' @ url_QueryEscape L x) v)"

definition addOptions :: "golib \<Rightarrow> string \<Rightarrow> go_error + (string \<times> string) list \<Rightarrow> string \<times> go_error option" where
  "addOptions L s opts =
     (case opts of
        Inl err \<Rightarrow> (s, Some err)
      | Inr v \<Rightarrow>
          (case url_Parse L s of
             Inl err \<Rightarrow> (s, Some err)
           | Inr u \<Rightarrow>
               (let q = Values_Encode L v;
                    u' = (if q \<noteq> [] then
                            (if RawQuery u \<noteq> [] then u\<lparr>RawQuery := RawQuery u @ ''&'' @ q\<rparr>
                             else u\<lparr>RawQuery := q\<rparr>)
                          else u)
                in (url_String L u', None))))"

section \<open>Semantic versions\<close>

text \<open>
  Modelled from the spec: the version resolver parses and compares semantic versions
  with a library that is not among the sources. Section 4.3 and the glossary of the
  specification: a version string \<open>major.minor.patch(-prerelease)(+build)\<close>, compared by
  major, minor and patch, then by the pre-release identifiers under the standard
  precedence rules (a version without pre-release is higher than one with; identifiers
  are compared left to right, numeric ones by value, alphanumeric ones in ASCII order,
  numeric below alphanumeric, and a longer list wins when all earlier identifiers are
  equal); build metadata takes no part in the comparison.
\<close>

datatype ident = Numeric nat | Alnum string

record semver =
  Major :: nat
  Minor :: nat
  Patch :: nat
  Prerelease :: "ident list"
  BuildMeta :: "string list"

fun split_on :: "char \<Rightarrow> string \<Rightarrow> string list" where
  "split_on c [] = [[]]"
| "split_on c (x # xs) =
     (if x = c then [] # split_on c xs
      else (case split_on c xs of [] \<Rightarrow> [[x]] | w # ws \<Rightarrow> (x # w) # ws))"

definition cut :: "char \<Rightarrow> string \<Rightarrow> string \<times> string option" where
  "cut c s = (takeWhile (\<lambda>x. x \<noteq> c) s,
              (case dropWhile (\<lambda>x. x \<noteq> c) s of [] \<Rightarrow> None | x # rest \<Rightarrow> Some rest))"

definition is_letter :: "char \<Rightarrow> bool" where
  "is_letter c = (c \<in> set ''abcdefghijklmnopqrstuvwxyzABCDEFGHIJKLMNOPQRSTUVWXYZ'')"

definition is_ident_char :: "char \<Rightarrow> bool" where
  "is_ident_char c = (is_digit c \<or> is_letter c \<or> c = CHR ''-'')"

definition numeric_ok :: "string \<Rightarrow> bool" where
  "numeric_ok s = (s \<noteq> [] \<and> list_all is_digit s \<and> (length s = 1 \<or> hd s \<noteq> CHR ''0''))"

definition parse_ident :: "string \<Rightarrow> ident option" where
  "parse_ident s =
     (if s = [] \<or> \<not> list_all is_ident_char s then None
      else if list_all is_digit s then (if numeric_ok s then Some (Numeric (decimal s)) else None)
      else Some (Alnum s))"

definition build_ok :: "string \<Rightarrow> bool" where
  "build_ok s = (s \<noteq> [] \<and> list_all is_ident_char s)"

definition semver_Parse :: "string \<Rightarrow> semver option" where
  "semver_Parse s =
     (case cut (CHR ''+'') s of (s1, build) \<Rightarrow>
      case cut (CHR ''-'') s1 of (core, pre) \<Rightarrow>
        (case split_on (CHR ''.'') core of
           [a, b, c] \<Rightarrow>
             if numeric_ok a \<and> numeric_ok b \<and> numeric_ok c then
               (case (case pre of None \<Rightarrow> Some [] | Some p \<Rightarrow> those (map parse_ident (split_on (CHR ''.'') p))) of
                  None \<Rightarrow> None
                | Some ids \<Rightarrow>
                    (case build of
                       None \<Rightarrow> Some \<lparr>Major = decimal a, Minor = decimal b, Patch = decimal c,
                                      Prerelease = ids, BuildMeta = []\<rparr>
                     | Some bs \<Rightarrow>
                         if list_all build_ok (split_on (CHR ''.'') bs)
                         then Some \<lparr>Major = decimal a, Minor = decimal b, Patch = decimal c,
                                    Prerelease = ids, BuildMeta = split_on (CHR ''.'') bs\<rparr>
                         else None))
             else None
         | _ \<Rightarrow> None))"

definition cmp_nat :: "nat \<Rightarrow> nat \<Rightarrow> int" where
  "cmp_nat a b = (if a < b then - 1 else if a = b then 0 else 1)"

definition cmp_string :: "string \<Rightarrow> string \<Rightarrow> int" where
  "cmp_string s t = (if s < t then - 1 else if s = t then 0 else 1)"

fun cmp_ident :: "ident \<Rightarrow> ident \<Rightarrow> int" where
  "cmp_ident (Numeric a) (Numeric b) = cmp_nat a b"
| "cmp_ident (Numeric a) (Alnum t) = - 1"
| "cmp_ident (Alnum s) (Numeric b) = 1"
| "cmp_ident (Alnum s) (Alnum t) = cmp_string s t"

fun cmp_pre :: "ident list \<Rightarrow> ident list \<Rightarrow> int" where
  "cmp_pre [] [] = 0"
| "cmp_pre [] (y # ys) = - 1"
| "cmp_pre (x # xs) [] = 1"
| "cmp_pre (x # xs) (y # ys) = (if cmp_ident x y \<noteq> 0 then cmp_ident x y else cmp_pre xs ys)"

definition comparePrerelease :: "ident list \<Rightarrow> ident list \<Rightarrow> int" where
  "comparePrerelease p q =
     (if p = [] \<and> q = [] then 0
      else if p = [] then 1
      else if q = [] then - 1
      else cmp_pre p q)"

definition semver_Compare :: "semver \<Rightarrow> semver \<Rightarrow> int" where
  "semver_Compare a b =
     (if cmp_nat (Major a) (Major b) \<noteq> 0 then cmp_nat (Major a) (Major b)
      else if cmp_nat (Minor a) (Minor b) \<noteq> 0 then cmp_nat (Minor a) (Minor b)
      else if cmp_nat (Patch a) (Patch b) \<noteq> 0 then cmp_nat (Patch a) (Patch b)
      else comparePrerelease (Prerelease a) (Prerelease b))"

definition semver_GreaterThan :: "semver \<Rightarrow> semver \<Rightarrow> bool" where
  "semver_GreaterThan a b = (semver_Compare a b = 1)"

section \<open>The servers service\<close>

text \<open>
  Modelled from the spec: the file of the \<open>ServersService\<close> (\<open>List\<close>, \<open>ListAll\<close>,
  \<open>ListByUpdatedSince\<close>, \<open>ListByName\<close>, \<open>GetByNameLatest\<close>, \<open>GetByNameExactVersion\<close>,
  \<open>GetByNameLatestActiveVersion\<close>, \<open>Get\<close>), its option types and the registry's wire types
  are not among the sources; only their tests, examples and documentation are. The
  definitions of this section follow sections 3, 4.2, 4.3 and 6 of the specification, and
  each method runs on the embedded \<open>addOptions\<close>, \<open>NewRequest\<close> and \<open>Do\<close>.

  A server record has a name, a version and a description; a list entry adds the
  optional registry metadata with its status. The list options are \<open>limit\<close>, \<open>cursor\<close>,
  \<open>search\<close>, \<open>version\<close> and \<open>updated_since\<close>; only the non-empty ones are encoded.
\<close>

record RegistryExtensions =
  Status :: string
  PublishedAt :: time
  UpdatedAt :: time
  IsLatest :: bool

record ServerJSON =
  Name :: string
  Version :: string
  Description :: string

record ServerResponse =
  Server :: ServerJSON
  Official :: "RegistryExtensions option"

record ServerListResponse =
  Servers :: "ServerResponse list"
  Metadata_NextCursor :: string

record ServerListOptions =
  opts_Limit :: int
  opts_Cursor :: string
  opts_Search :: string
  opts_Version :: string
  opts_UpdatedSince :: "time option"

record ServerGetOptions =
  get_Version :: string

definition StatusActive :: string where
  "StatusActive = ''active''"

definition no_options :: ServerListOptions where
  "no_options = \<lparr>opts_Limit = 0, opts_Cursor = [], opts_Search = [], opts_Version = [],
                  opts_UpdatedSince = None\<rparr>"

definition empty_list_response :: ServerListResponse where
  "empty_list_response = \<lparr>Servers = [], Metadata_NextCursor = []\<rparr>"

text \<open>
  A method returns its value and the response, or the response (if there is one) and the
  error; the client it leaves behind comes second. A decoder gives, for a body and the
  value held before, the decoder's error and the value held afterwards.
\<close>

type_synonym 'a result = "(Response option \<times> go_error) + ('a \<times> Response option)"

type_synonym 'v decoder = "string \<Rightarrow> 'v \<Rightarrow> go_error option \<times> 'v"

fun digits_of :: "nat \<Rightarrow> string" where
  "digits_of n =
     (if n < 10 then [''0123456789'' ! n] else digits_of (n div 10) @ [''0123456789'' ! (n mod 10)])"

definition Itoa :: "int \<Rightarrow> string" where
  "Itoa i = (if i < 0 then CHR ''-'' # digits_of (nat (- i)) else digits_of (nat i))"

definition query_Values :: "golib \<Rightarrow> ServerListOptions option \<Rightarrow> (string \<times> string) list" where
  "query_Values L opts =
     (case opts of
        None \<Rightarrow> []
      | Some opt \<Rightarrow>
          (if opts_Cursor opt \<noteq> [] then [(''cursor'', opts_Cursor opt)] else []) @
          (if opts_Limit opt \<noteq> 0 then [(''limit'', Itoa (opts_Limit opt))] else []) @
          (if opts_Search opt \<noteq> [] then [(''search'', opts_Search opt)] else []) @
          (case opts_UpdatedSince opt of
             None \<Rightarrow> []
           | Some t \<Rightarrow> [(''updated_since'', time_Format_RFC3339 L t)]) @
          (if opts_Version opt \<noteq> [] then [(''version'', opts_Version opt)] else []))"

definition List_request :: "golib \<Rightarrow> Client \<Rightarrow> ServerListOptions option \<Rightarrow> go_error + http_Request" where
  "List_request L c opts =
     (case addOptions L ''v0.1/servers'' (Inr (query_Values L opts)) of
        (u, Some err) \<Rightarrow> Inl err
      | (u, None) \<Rightarrow> NewRequest L ''GET'' u None c)"

definition List :: "golib \<Rightarrow> ServerListResponse decoder \<Rightarrow> go_context option \<Rightarrow>
    ServerListOptions option \<Rightarrow> Client \<Rightarrow> ServerListResponse result \<times> Client" where
  "List L dec ctx opts c =
     (case List_request L c opts of
        Inl err \<Rightarrow> (Inl (None, err), c)
      | Inr req \<Rightarrow>
          (case Do L dec ctx req (Target empty_list_response) c of
             ((resp, Some err, v), c') \<Rightarrow> (Inl (resp, err), c')
           | ((resp, None, v), c') \<Rightarrow>
               (let lr = (case v of Target x \<Rightarrow> x | _ \<Rightarrow> empty_list_response)
                in (Inr (lr, map_option (\<lambda>r. r\<lparr>NextCursor := Metadata_NextCursor lr\<rparr>) resp), c'))))"





text \<open>
  The resolvers by name send one search request with a page size of 100 and select
  among the records of that page whose name is exactly the name asked for.
\<close>

definition search_options :: "string \<Rightarrow> ServerListOptions" where
  "search_options name = no_options\<lparr>opts_Search := name, opts_Limit := 100\<rparr>"

definition exact_matches :: "string \<Rightarrow> ServerResponse list \<Rightarrow> ServerJSON list" where
  "exact_matches name servers =
     foldl (\<lambda>acc sr. if Name (Server sr) = name then acc @ [Server sr] else acc) [] servers"

definition ListByName :: "golib \<Rightarrow> ServerListResponse decoder \<Rightarrow> go_context option \<Rightarrow>
    string \<Rightarrow> Client \<Rightarrow> ServerJSON list result \<times> Client" where
  "ListByName L dec ctx name c =
     (case List L dec ctx (Some (search_options name)) c of
        (Inl e, c') \<Rightarrow> (Inl e, c')
      | (Inr (lr, resp), c') \<Rightarrow> (Inr (exact_matches name (Servers lr), resp), c'))"



text \<open>
  \<open>GetByNameLatestActiveVersion\<close> walks the page once and keeps the best record seen so
  far with its parsed version: a record is skipped when its name differs, when its
  metadata is absent or its status is not active, or when its version does not parse; it
  takes the place of the best so far only when its version is greater.
\<close>

definition latest_step :: "string \<Rightarrow> (ServerJSON \<times> semver) option \<Rightarrow> ServerResponse \<Rightarrow>
    (ServerJSON \<times> semver) option" where
  "latest_step name best sr =
     (if Name (Server sr) \<noteq> name then best
      else case Official sr of
        None \<Rightarrow> best
      | Some meta \<Rightarrow>
          if Status meta \<noteq> StatusActive then best
          else (case semver_Parse (Version (Server sr)) of
                  None \<Rightarrow> best
                | Some v \<Rightarrow>
                    (case best of
                       None \<Rightarrow> Some (Server sr, v)
                     | Some (latest, latestVersion) \<Rightarrow>
                         if semver_GreaterThan v latestVersion then Some (Server sr, v) else best)))"

definition latest_active :: "string \<Rightarrow> ServerResponse list \<Rightarrow> ServerJSON option" where
  "latest_active name servers = map_option fst (foldl (latest_step name) None servers)"

definition GetByNameLatestActiveVersion :: "golib \<Rightarrow> ServerListResponse decoder \<Rightarrow> go_context option \<Rightarrow>
    string \<Rightarrow> Client \<Rightarrow> ServerJSON option result \<times> Client" where
  "GetByNameLatestActiveVersion L dec ctx name c =
     (case List L dec ctx (Some (search_options name)) c of
        (Inl e, c') \<Rightarrow> (Inl e, c')
      | (Inr (lr, resp), c') \<Rightarrow> (Inr (latest_active name (Servers lr), resp), c'))"

text \<open>
  The single-record fetches use the endpoint \<open>v0.1/servers/{name}/versions/{version}\<close>
  with both segments percent-encoded, and decode into a pointer: the value held is
  \<open>None\<close> for nil. \<open>Get\<close> asks for the version of its options, or for \<open>latest\<close>, and passes
  every error on. \<open>GetByNameExactVersion\<close> returns no record and no error when the
  server answers 404, and passes every other error on.

  The treatment of 404 is that of sections 4.3 and 7 of the specification, which the
  package's integration test and its version example expect as well (no record and no
  error for a version that does not exist). The package's unit test
  \<open>TestServersService_GetByNameExactVersion\<close> expects an \<open>ErrorResponse\<close> on a 404
  instead; on this point the definition follows the specification.
\<close>

definition version_path :: "golib \<Rightarrow> string \<Rightarrow> string \<Rightarrow> string" where
  "version_path L name version =
     ''v0.1/servers/'' @ url_PathEscape L name @ ''/versions/'' @ url_PathEscape L version"

definition unwrap_server :: "ServerResponse option out \<Rightarrow> ServerJSON option" where
  "unwrap_server v = (case v of Target (Some sr) \<Rightarrow> Some (Server sr) | _ \<Rightarrow> None)"

definition requested_version :: "ServerGetOptions option \<Rightarrow> string" where
  "requested_version opts =
     (case opts of
        None \<Rightarrow> ''latest''
      | Some opt \<Rightarrow> if get_Version opt \<noteq> [] then get_Version opt else ''latest'')"

definition Get :: "golib \<Rightarrow> ServerResponse option decoder \<Rightarrow> go_context option \<Rightarrow>
    string \<Rightarrow> ServerGetOptions option \<Rightarrow> Client \<Rightarrow> ServerJSON option result \<times> Client" where
  "Get L dec ctx name opts c =
     (case NewRequest L ''GET'' (version_path L name (requested_version opts)) None c of
        Inl err \<Rightarrow> (Inl (None, err), c)
      | Inr req \<Rightarrow>
          (case Do L dec ctx req (Target None) c of
             ((resp, Some err, v), c') \<Rightarrow> (Inl (resp, err), c')
           | ((resp, None, v), c') \<Rightarrow> (Inr (unwrap_server v, resp), c')))"

definition is_not_found :: "Response option \<Rightarrow> bool" where
  "is_not_found resp = (case resp of None \<Rightarrow> False | Some r \<Rightarrow> StatusCode (Response r) = 404)"

definition GetByNameExactVersion :: "golib \<Rightarrow> ServerResponse option decoder \<Rightarrow> go_context option \<Rightarrow>
    string \<Rightarrow> string \<Rightarrow> Client \<Rightarrow> ServerJSON option result \<times> Client" where
  "GetByNameExactVersion L dec ctx name version c =
     (case NewRequest L ''GET'' (version_path L name version) None c of
        Inl err \<Rightarrow> (Inl (None, err), c)
      | Inr req \<Rightarrow>
          (case Do L dec ctx req (Target None) c of
             ((resp, Some err, v), c') \<Rightarrow>
               if is_not_found resp then (Inr (None, resp), c') else (Inl (resp, err), c')
           | ((resp, None, v), c') \<Rightarrow> (Inr (unwrap_server v, resp), c')))"

section \<open>A library instance\<close>

text \<open>
  A small instance of \<open>golib\<close> on which the definitions can be run: URLs of the form
  \<open>scheme://host/path?query\<close> and relative references \<open>path?query\<close> in lower case and
  without escapes, user information or fragment; the scheme is found as \<open>url.Parse\<close>
  finds it. Only the slash is escaped in a path segment, nothing in a query. The two
  timestamps are those of the package's tests, the error payload is that of a body
  without a message, and the network of a fresh client is unreachable.
\<close>

fun getScheme :: "string \<Rightarrow> string \<Rightarrow> go_error + (string \<times> string)" where
  "getScheme acc [] = Inr ([], rev acc)"
| "getScheme acc (ch # cs) =
     (if is_letter ch then getScheme (ch # acc) cs
      else if is_digit ch \<or> ch = CHR ''+'' \<or> ch = CHR ''-'' \<or> ch = CHR ''.''
        then (if acc = [] then Inr ([], ch # cs) else getScheme (ch # acc) cs)
      else if ch = CHR '':''
        then (if acc = [] then Inl (LibError ''missing protocol scheme'') else Inr (rev acc, cs))
      else Inr ([], rev acc @ ch # cs))"

definition simple_url_Parse :: "string \<Rightarrow> go_error + URL" where
  "simple_url_Parse s =
     (case getScheme [] s of
        Inl err \<Rightarrow> Inl err
      | Inr (scheme, rest) \<Rightarrow>
          (case cut (CHR ''?'') rest of (r1, q) \<Rightarrow>
             (let query = (case q of None \<Rightarrow> [] | Some x \<Rightarrow> x)
              in if take 2 r1 = ''//''
                 then Inr \<lparr>Scheme = scheme, Host = takeWhile (\<lambda>x. x \<noteq> CHR ''/'') (drop 2 r1),
                           Path = dropWhile (\<lambda>x. x \<noteq> CHR ''/'') (drop 2 r1), RawQuery = query\<rparr>
                 else Inr \<lparr>Scheme = scheme, Host = [], Path = r1, RawQuery = query\<rparr>)))"

definition simple_url_String :: "URL \<Rightarrow> string" where
  "simple_url_String u =
     (if Scheme u \<noteq> [] then Scheme u @ '':'' else []) @
     (if Scheme u \<noteq> [] \<or> Host u \<noteq> [] then ''//'' @ Host u else []) @
     Path u @
     (if RawQuery u \<noteq> [] then ''?'' @ RawQuery u else [])"

definition simple_url_ResolveRef :: "URL \<Rightarrow> string \<Rightarrow> go_error + URL" where
  "simple_url_ResolveRef base ref =
     (case simple_url_Parse ref of
        Inl err \<Rightarrow> Inl err
      | Inr r \<Rightarrow>
          if Scheme r \<noteq> [] then Inr r
          else if take 1 (Path r) = ''/'' then Inr (base\<lparr>Path := Path r, RawQuery := RawQuery r\<rparr>)
          else Inr (base\<lparr>Path := rev (dropWhile (\<lambda>x. x \<noteq> CHR ''/'') (rev (Path base))) @ Path r,
                          RawQuery := RawQuery r\<rparr>))"

definition simple_PathEscape :: "string \<Rightarrow> string" where
  "simple_PathEscape s = concat (map (\<lambda>ch. if ch = CHR ''/'' then ''%2F'' else [ch]) s)"

definition simple_http_NewRequest :: "string \<Rightarrow> string \<Rightarrow> string option \<Rightarrow> go_error + http_Request" where
  "simple_http_NewRequest method url body =
     (case simple_url_Parse url of
        Inl err \<Rightarrow> Inl err
      | Inr u \<Rightarrow> Inr \<lparr>Method = method, req_URL = u, req_Header = [], req_Body = body,
                       req_ctx = Some None\<rparr>)"

definition simple_time_Parse :: "string \<Rightarrow> go_error + time" where
  "simple_time_Parse s =
     (if s = ''2024-01-01T00:00:00Z'' then Inr 63839664000
      else if s = ''2024-01-01T12:00:00Z'' then Inr 63839707200
      else Inl (LibError ''cannot parse as RFC3339''))"

definition simple_time_Format :: "time \<Rightarrow> string" where
  "simple_time_Format t =
     (if t = 63839707200 then ''2024-01-01T12:00:00Z'' else ''2024-01-01T00:00:00Z'')"

definition simple_golib :: golib where
  "simple_golib =
     \<lparr>url_Parse = simple_url_Parse, url_String = simple_url_String,
      url_ResolveRef = simple_url_ResolveRef, url_QueryEscape = (\<lambda>s. s),
      url_PathEscape = simple_PathEscape, http_NewRequest = simple_http_NewRequest,
      time_Parse_RFC3339 = simple_time_Parse, time_Format_RFC3339 = simple_time_Format,
      json_error_payload = (\<lambda>body. ([], [])),
      http_DefaultClient = (\<lambda>hist req. Inl (LibError ''network unreachable''))\<rparr>"

text \<open>
  A client for a server that answers the \<open>k\<close>-th request it receives with the \<open>k\<close>-th
  entry of a list, and with a transport error once the list is used up.
\<close>

definition scripted :: "(go_error + http_Response) list \<Rightarrow> http_Request list \<Rightarrow> http_Request \<Rightarrow>
    go_error + http_Response" where
  "scripted answers hist req =
     (if length hist < length answers then answers ! length hist
      else Inl (LibError ''connection refused''))"

definition test_client :: "(go_error + http_Response) list \<Rightarrow> Client" where
  "test_client answers =
     \<lparr>client = scripted answers, wire = [],
      BaseURL = \<lparr>Scheme = ''http'', Host = ''127.0.0.1'', Path = ''/'', RawQuery = []\<rparr>,
      UserAgent = userAgent, rateLimits = Map.empty\<rparr>"

text \<open>
  Fixtures: a GET request as \<open>NewRequest\<close> leaves it, the 429 response of the
  specification's scenario (limit 100, remaining 0, a reset time), two 200 responses
  (one with an empty body, one whose body is not JSON), and a decoder that finds a body
  malformed and leaves the value alone, as the JSON decoder does on a syntax error.
\<close>

definition get_request :: "string \<Rightarrow> http_Request" where
  "get_request path =
     \<lparr>Method = ''GET'',
      req_URL = \<lparr>Scheme = ''http'', Host = ''127.0.0.1'', Path = path, RawQuery = []\<rparr>,
      req_Header = [(''Accept'', mediaTypeJSON)], req_Body = None, req_ctx = Some None\<rparr>"


definition ok_response :: "string \<Rightarrow> http_Response" where
  "ok_response body = \<lparr>StatusCode = 200, Header = [], Body = body\<rparr>"

definition malformed :: "'v decoder" where
  "malformed body v = (Some (JsonSyntaxError ''invalid character''), v)"

text \<open>
  More fixtures: a decoder given as a table from bodies to decoded values, list entries
  and pages, the request \<open>List\<close> builds for given options, and the two pages of the
  package's test of \<open>ListAll\<close> with a server that answers the first page and then a
  second answer: the second page, or a failure with status 500.
\<close>

definition table_decoder :: "(string \<times> 'v) list \<Rightarrow> 'v decoder" where
  "table_decoder tab body v =
     (case map_of tab body of
        None \<Rightarrow> (Some (JsonSyntaxError ''invalid character''), v)
      | Some x \<Rightarrow> (None, x))"

definition entry :: "string \<Rightarrow> string \<Rightarrow> string \<Rightarrow> ServerResponse" where
  "entry name version status =
     \<lparr>Server = \<lparr>Name = name, Version = version, Description = []\<rparr>,
      Official = (if status = [] then None
                  else Some \<lparr>Status = status, PublishedAt = 0, UpdatedAt = 0, IsLatest = False\<rparr>)\<rparr>"

definition page :: "ServerResponse list \<Rightarrow> string \<Rightarrow> ServerListResponse" where
  "page servers next = \<lparr>Servers = servers, Metadata_NextCursor = next\<rparr>"








text \<open>
  A search page with a near match, as in the package's test of \<open>ListByName\<close>, and one
  with the versions of a server: active ones, a deprecated one, two of equal precedence,
  one that is no semantic version, one without metadata, and a near match.
\<close>

definition near_match_page :: ServerListResponse where
  "near_match_page =
     page [entry ''exact-name'' ''1.0.0'' ''active'', entry ''exact-name-plus'' ''2.0.0'' ''active''] []"

definition versions_page :: ServerListResponse where
  "versions_page =
     page [entry ''test-server'' ''1.0.0'' ''active'', entry ''test-server'' ''2.0.0'' ''deprecated'',
           entry ''test-server'' ''1.5.0'' ''active'', entry ''test-server'' ''1.5.0+build.7'' ''active'',
           entry ''test-server'' ''not-semver'' ''active'', entry ''test-server'' ''9.0.0'' [],
           entry ''test-server-plus'' ''3.0.0'' ''active''] []"

definition search_client :: Client where
  "search_client = test_client [Inr (ok_response ''body'')]"

text \<open>
  The request a single-record fetch builds, and a decoder for such a fetch that knows
  the JSON literal \<open>null\<close>, which the JSON decoder turns into a nil pointer.
\<close>

definition fetch_request :: "golib \<Rightarrow> Client \<Rightarrow> string \<Rightarrow> string \<Rightarrow> http_Request" where
  "fetch_request L c name version =
     (case NewRequest L ''GET'' (version_path L name version) None c of
        Inl e \<Rightarrow> get_request []
      | Inr r \<Rightarrow> r)"

definition null_decoder :: "ServerResponse option decoder" where
  "null_decoder = table_decoder [(''null'', None)]"

section \<open>The error taxonomy of the specification\<close>

text \<open>
  Section 7 of the specification sorts the failures into five kinds and section 9 asks
  for them as tagged variants in place of Go's dynamic error types. \<open>spec_kind\<close> reads
  that taxonomy on the Go errors: a configuration error is one the package formats
  itself, an API error is an \<open>ErrorResponse\<close>, a decode error is an error of the JSON
  decoder, and a transport error is one of the HTTP round trip or of the context.
\<close>

datatype error_kind = ConfigurationError | APIError | RateLimited | DecodeError | TransportError

fun spec_kind :: "go_error \<Rightarrow> error_kind" where
  "spec_kind (Errorf m) = ConfigurationError"
| "spec_kind (Errorw m e) = ConfigurationError"
| "spec_kind (ContextErr e) = TransportError"
| "spec_kind (LibError m) = TransportError"
| "spec_kind IoEOF = DecodeError"
| "spec_kind (JsonSyntaxError m) = DecodeError"
| "spec_kind (JsonUnmarshalError m) = DecodeError"
| "spec_kind (ErrorResponse r m es) = APIError"
| "spec_kind (RateLimitError rt r m) = RateLimited"

section \<open>Notions used in the statements\<close>




text \<open>
  A list entry is eligible for a name when its name is that name, its metadata is present
  with the status active, and its version parses; \<open>version_of\<close> is the parsed version.
  \<open>semver_key\<close> sends a version to a tuple whose lexicographic order is the precedence of
  versions: major, minor, patch, then a flag that puts a version without pre-release
  last, then the pre-release identifiers, numeric before alphanumeric.
\<close>

definition eligible :: "string \<Rightarrow> ServerResponse \<Rightarrow> bool" where
  "eligible name sr =
     (Name (Server sr) = name
      \<and> (case Official sr of None \<Rightarrow> False | Some meta \<Rightarrow> Status meta = StatusActive)
      \<and> semver_Parse (Version (Server sr)) \<noteq> None)"

definition candidates :: "string \<Rightarrow> ServerListResponse \<Rightarrow> ServerResponse list" where
  "candidates name lr = filter (eligible name) (Servers lr)"

definition version_of :: "ServerResponse \<Rightarrow> semver" where
  "version_of sr =
     (case semver_Parse (Version (Server sr)) of
        None \<Rightarrow> \<lparr>Major = 0, Minor = 0, Patch = 0, Prerelease = [], BuildMeta = []\<rparr>
      | Some v \<Rightarrow> v)"

definition ident_key :: "ident \<Rightarrow> nat \<times> nat \<times> string" where
  "ident_key i = (case i of Numeric n \<Rightarrow> (0, n, []) | Alnum s \<Rightarrow> (1, 0, s))"

definition semver_key :: "semver \<Rightarrow> nat \<times> nat \<times> nat \<times> nat \<times> (nat \<times> nat \<times> string) list" where
  "semver_key v =
     (Major v, Minor v, Patch v, (if Prerelease v = [] then 1 else 0), map ident_key (Prerelease v))"



section \<open>Properties of the transport core\<close>

text \<open>
  C9. With a nil context \<open>Do\<close> fails at once with the error "context must be non-nil":
  no response is returned, the output value is untouched, and the client is left as it
  was, so nothing was handed to the HTTP client and no context was put in its place.
\<close>

theorem Do_nil_context:
  "Do L dec None req v c = ((None, Some (Errorf ''context must be non-nil''), v), c)"
  by (simp add: Do_def)

lemma CheckResponse_2xx:
  "200 \<le> StatusCode r \<Longrightarrow> StatusCode r \<le> 299 \<Longrightarrow> CheckResponse L r = None"
  by (simp add: CheckResponse_def)

lemma Do_response:
  assumes "client c (wire c) (req\<lparr>req_ctx := Some cx\<rparr>) = Inr resp"
  shows "Do L dec (Some cx) req v c =
     (let c2 = c\<lparr>wire := wire c @ [req\<lparr>req_ctx := Some cx\<rparr>],
                 rateLimits := (rateLimits c)(Path (req_URL req) \<mapsto> parseRate L resp)\<rparr>
      in case CheckResponse L resp of
           Some err \<Rightarrow> ((Some (newResponse L resp), Some err, v), c2)
         | None \<Rightarrow>
             (case v of
                NoOut \<Rightarrow> ((Some (newResponse L resp), None, v), c2)
              | Writer w \<Rightarrow> ((Some (newResponse L resp), None, Writer (w @ Body resp)), c2)
              | Target x \<Rightarrow>
                  ((Some (newResponse L resp),
                    (if fst (Decode dec (Body resp) x) = Some IoEOF then None
                     else fst (Decode dec (Body resp) x)),
                    Target (snd (Decode dec (Body resp) x))), c2)))"
  using assms
  by (simp add: Do_def Let_def newResponse_def split: option.splits out.splits prod.splits)

text \<open>
  C7. On a 2xx response decoded into a value, an empty body (or one of white space only,
  which the decoder treats alike) is no error and leaves the value as it was; a body
  with other content on which the JSON decoder reports a syntax error makes \<open>Do\<close> fail
  with that syntax error, a decode error in the taxonomy of the specification. Go
  returns the decoder's error itself; no further error type is put around it.
\<close>

theorem Do_decodes_body:
  assumes "client c (wire c) (req\<lparr>req_ctx := Some cx\<rparr>) = Inr resp"
    and "200 \<le> StatusCode resp" and "StatusCode resp \<le> 299"
  shows "(Body resp = [] \<or> list_all json_space (Body resp) \<longrightarrow>
            fst (Do L dec (Some cx) req (Target x) c) = (Some (newResponse L resp), None, Target x))
       \<and> (\<not> list_all json_space (Body resp) \<and> dec (Body resp) x = (Some (JsonSyntaxError m), x') \<longrightarrow>
            fst (Do L dec (Some cx) req (Target x) c) =
              (Some (newResponse L resp), Some (JsonSyntaxError m), Target x')
            \<and> spec_kind (JsonSyntaxError m) = DecodeError)"
proof -
  have ok: "CheckResponse L resp = None"
    using assms(2,3) by (rule CheckResponse_2xx)
  have blank: "Body resp = [] \<or> list_all json_space (Body resp) \<Longrightarrow>
      Decode dec (Body resp) x = (Some IoEOF, x)"
    by (auto simp: Decode_def)
  have other: "\<not> list_all json_space (Body resp) \<Longrightarrow> Decode dec (Body resp) x = dec (Body resp) x"
    by (simp add: Decode_def)
  show ?thesis
    using blank other by (auto simp: Do_response [OF assms(1)] ok)
qed

theorem Do_decodes_body_witness:
  "fst (Do simple_golib malformed (Some None) (get_request ''/test'') (Target ([] :: (string \<times> string) list))
          (test_client [Inr (ok_response [])])) =
     (Some (newResponse simple_golib (ok_response [])), None, Target [])
   \<and> fst (Do simple_golib malformed (Some None) (get_request ''/test'') (Target ([] :: (string \<times> string) list))
          (test_client [Inr (ok_response ''not valid json'')])) =
     (Some (newResponse simple_golib (ok_response ''not valid json'')),
      Some (JsonSyntaxError ''invalid character''), Target [])"
proof -
  have a: "client (test_client [Inr r]) (wire (test_client [Inr r]))
             ((get_request ''/test'')\<lparr>req_ctx := Some None\<rparr>) = Inr r" for r
    by (simp add: test_client_def scripted_def)
  have s: "200 \<le> StatusCode (ok_response b)" "StatusCode (ok_response b) \<le> 299" for b
    by (simp_all add: ok_response_def)
  show ?thesis
    using Do_decodes_body [OF a s, of "[]" simple_golib malformed "[]"]
      Do_decodes_body [OF a s, of "''not valid json''" simple_golib malformed "[]" "''invalid character''" "[]"]
    by (simp add: ok_response_def malformed_def json_space_def)
qed





section \<open>Properties of the client construction\<close>

lemma HasSuffix_append: "HasSuffix (p @ s) s"
  by (simp add: HasSuffix_def)

lemma WithBaseURL_empty: "WithBaseURL L [] c = Inl (Errorf ''base URL cannot be empty'')"
  by (simp add: WithBaseURL_def)

lemma WithBaseURL_unparseable:
  "u \<noteq> [] \<Longrightarrow> url_Parse L u = Inl e \<Longrightarrow> WithBaseURL L u c = Inl (Errorw ''invalid base URL: '' e)"
  by (simp add: WithBaseURL_def)

lemma WithBaseURL_scheme:
  "u \<noteq> [] \<Longrightarrow> url_Parse L u = Inr p \<Longrightarrow> Scheme p \<noteq> ''http'' \<Longrightarrow> Scheme p \<noteq> ''https'' \<Longrightarrow>
   WithBaseURL L u c =
     Inl (Errorf (''base URL must use HTTP or HTTPS scheme, got: '' @ Scheme p))"
  by (simp add: WithBaseURL_def)

lemma WithBaseURL_accepts:
  "u \<noteq> [] \<Longrightarrow> url_Parse L u = Inr p \<Longrightarrow> Scheme p = ''http'' \<or> Scheme p = ''https'' \<Longrightarrow>
   WithBaseURL L u c =
     Inr (c\<lparr>BaseURL := p\<lparr>Path := (if HasSuffix (Path p) ''/'' then Path p else Path p @ ''/'')\<rparr>\<rparr>)"
  by (auto simp: WithBaseURL_def)

lemma NewClient_one_option:
  "NewClient L hc [opt] =
     (case url_Parse L defaultBaseURL of
        Inl err \<Rightarrow> Inl (Errorw ''failed to parse default base URL: '' err)
      | Inr d \<Rightarrow> opt \<lparr>client = (case hc of None \<Rightarrow> http_DefaultClient L | Some h \<Rightarrow> h), wire = [],
                        BaseURL = d, UserAgent = userAgent, rateLimits = Map.empty\<rparr>)"
  by (simp add: NewClient_def Let_def split: sum.splits)

lemma NewClient_rejects:
  "(\<And>c. isl (opt c)) \<Longrightarrow> isl (NewClient L hc [opt])"
  by (simp add: NewClient_one_option split: sum.splits)

text \<open>
  C6. \<open>WithBaseURL\<close>, and with it the construction of a client, fails on an empty base
  URL, on one that \<open>url.Parse\<close> rejects, and on one whose scheme is neither \<open>http\<close> nor
  \<open>https\<close>. Every other base URL is accepted: a path that does not end in a slash gets
  exactly one slash appended, a path that ends in a slash is taken as it is, and the
  path of the client's base URL ends in a slash in both cases.
\<close>

theorem WithBaseURL_validates_and_normalizes:
  "WithBaseURL L [] c0 = Inl (Errorf ''base URL cannot be empty'')
   \<and> isl (NewClient L hc [WithBaseURL L []])
   \<and> (u \<noteq> [] \<and> url_Parse L u = Inl e \<longrightarrow>
        WithBaseURL L u c0 = Inl (Errorw ''invalid base URL: '' e)
        \<and> isl (NewClient L hc [WithBaseURL L u]))
   \<and> (u \<noteq> [] \<and> url_Parse L u = Inr p \<and> Scheme p \<noteq> ''http'' \<and> Scheme p \<noteq> ''https'' \<longrightarrow>
        WithBaseURL L u c0 =
          Inl (Errorf (''base URL must use HTTP or HTTPS scheme, got: '' @ Scheme p))
        \<and> isl (NewClient L hc [WithBaseURL L u]))
   \<and> (u \<noteq> [] \<and> url_Parse L u = Inr p \<and> (Scheme p = ''http'' \<or> Scheme p = ''https'')
        \<and> url_Parse L defaultBaseURL = Inr d \<longrightarrow>
        (\<exists>c. NewClient L hc [WithBaseURL L u] = Inr c
           \<and> HasSuffix (Path (BaseURL c)) ''/''
           \<and> (\<not> HasSuffix (Path p) ''/'' \<longrightarrow> BaseURL c = p\<lparr>Path := Path p @ ''/''\<rparr>)
           \<and> (HasSuffix (Path p) ''/'' \<longrightarrow> BaseURL c = p)))"
proof (intro conjI impI)
  show "WithBaseURL L [] c0 = Inl (Errorf ''base URL cannot be empty'')"
    by (rule WithBaseURL_empty)
  show "isl (NewClient L hc [WithBaseURL L []])"
    by (rule NewClient_rejects) (simp add: WithBaseURL_empty)
next
  assume a: "u \<noteq> [] \<and> url_Parse L u = Inl e"
  show "WithBaseURL L u c0 = Inl (Errorw ''invalid base URL: '' e)"
    using a by (simp add: WithBaseURL_unparseable)
  show "isl (NewClient L hc [WithBaseURL L u])"
    using a by (intro NewClient_rejects) (simp add: WithBaseURL_unparseable)
next
  assume a: "u \<noteq> [] \<and> url_Parse L u = Inr p \<and> Scheme p \<noteq> ''http'' \<and> Scheme p \<noteq> ''https''"
  show "WithBaseURL L u c0 =
          Inl (Errorf (''base URL must use HTTP or HTTPS scheme, got: '' @ Scheme p))"
    using a by (simp add: WithBaseURL_scheme)
  show "isl (NewClient L hc [WithBaseURL L u])"
    using a by (intro NewClient_rejects) (simp add: WithBaseURL_scheme)
next
  assume a: "u \<noteq> [] \<and> url_Parse L u = Inr p \<and> (Scheme p = ''http'' \<or> Scheme p = ''https'')
        \<and> url_Parse L defaultBaseURL = Inr d"
  then have acc: "\<And>c. WithBaseURL L u c =
      Inr (c\<lparr>BaseURL := p\<lparr>Path := (if HasSuffix (Path p) ''/'' then Path p else Path p @ ''/'')\<rparr>\<rparr>)"
    by (intro WithBaseURL_accepts) auto
  show "\<exists>c. NewClient L hc [WithBaseURL L u] = Inr c
           \<and> HasSuffix (Path (BaseURL c)) ''/''
           \<and> (\<not> HasSuffix (Path p) ''/'' \<longrightarrow> BaseURL c = p\<lparr>Path := Path p @ ''/''\<rparr>)
           \<and> (HasSuffix (Path p) ''/'' \<longrightarrow> BaseURL c = p)"
    using a by (auto simp: NewClient_one_option acc HasSuffix_append)
qed

lemma parse_default: "simple_url_Parse defaultBaseURL =
    Inr \<lparr>Scheme = ''https'', Host = ''registry.modelcontextprotocol.io'', Path = ''/'', RawQuery = []\<rparr>"
  unfolding defaultBaseURL_def by code_simp

lemma parse_custom: "simple_url_Parse ''https://custom.example.com/api/v1'' =
    Inr \<lparr>Scheme = ''https'', Host = ''custom.example.com'', Path = ''/api/v1'', RawQuery = []\<rparr>"
  by code_simp

lemma parse_invalid: "simple_url_Parse ''://invalid-url'' = Inl (LibError ''missing protocol scheme'')"
  by code_simp

lemma parse_ftp: "simple_url_Parse ''ftp://example.com/'' =
    Inr \<lparr>Scheme = ''ftp'', Host = ''example.com'', Path = ''/'', RawQuery = []\<rparr>"
  by code_simp

theorem WithBaseURL_validates_and_normalizes_witness:
  "isl (NewClient simple_golib None [WithBaseURL simple_golib ''://invalid-url''])
   \<and> isl (NewClient simple_golib None [WithBaseURL simple_golib ''ftp://example.com/''])
   \<and> (\<exists>c. NewClient simple_golib None [WithBaseURL simple_golib ''https://custom.example.com/api/v1''] = Inr c
         \<and> BaseURL c = \<lparr>Scheme = ''https'', Host = ''custom.example.com'', Path = ''/api/v1/'', RawQuery = []\<rparr>)"
proof -
  have L: "url_Parse simple_golib = simple_url_Parse"
    by (simp add: simple_golib_def)
  have ns: "\<not> HasSuffix ''/api/v1'' ''/''"
    by (simp add: HasSuffix_def)
  show ?thesis
    using WithBaseURL_validates_and_normalizes [of simple_golib undefined None "''://invalid-url''"
        "LibError ''missing protocol scheme''"]
      WithBaseURL_validates_and_normalizes [of simple_golib undefined None "''ftp://example.com/''" _
        "\<lparr>Scheme = ''ftp'', Host = ''example.com'', Path = ''/'', RawQuery = []\<rparr>"]
      WithBaseURL_validates_and_normalizes [of simple_golib undefined None "''https://custom.example.com/api/v1''" _
        "\<lparr>Scheme = ''https'', Host = ''custom.example.com'', Path = ''/api/v1'', RawQuery = []\<rparr>"
        "\<lparr>Scheme = ''https'', Host = ''registry.modelcontextprotocol.io'', Path = ''/'', RawQuery = []\<rparr>"]
    by (auto simp add: L parse_default parse_custom parse_invalid parse_ftp ns)
qed

section \<open>Properties of the list operation\<close>





section \<open>Pagination\<close>

















section \<open>Semantic version order\<close>

lemma cmp_ident_key:
  "cmp_ident x y = (if ident_key x < ident_key y then - 1 else if ident_key x = ident_key y then 0 else 1)"
  by (cases x; cases y) (auto simp: ident_key_def cmp_nat_def cmp_string_def)

lemma cmp_pre_key:
  "cmp_pre p q =
     (if map ident_key p < map ident_key q then - 1
      else if map ident_key p = map ident_key q then 0 else 1)"
proof (induction p q rule: cmp_pre.induct)
  case (4 x xs y ys)
  then show ?case
    by (auto simp: cmp_ident_key split: if_splits)
qed simp_all

lemma comparePrerelease_key:
  "comparePrerelease p q =
     (if ((if p = [] then 1 else 0 :: nat), map ident_key p) < ((if q = [] then 1 else 0), map ident_key q) then - 1
      else if ((if p = [] then 1 else 0 :: nat), map ident_key p) = ((if q = [] then 1 else 0), map ident_key q) then 0
      else 1)"
  by (auto simp: comparePrerelease_def cmp_pre_key)

lemma semver_Compare_key:
  "semver_Compare a b =
     (if semver_key a < semver_key b then - 1 else if semver_key a = semver_key b then 0 else 1)"
  unfolding semver_Compare_def semver_key_def comparePrerelease_key cmp_nat_def
  by (auto simp: less_prod_def')

lemma semver_Compare_le: "semver_Compare a b \<le> 0 \<longleftrightarrow> semver_key a \<le> semver_key b"
  by (auto simp: semver_Compare_key)

lemma semver_Compare_less: "semver_Compare a b < 0 \<longleftrightarrow> semver_key a < semver_key b"
  by (auto simp: semver_Compare_key)

lemma semver_GreaterThan_key: "semver_GreaterThan a b \<longleftrightarrow> semver_key b < semver_key a"
  by (auto simp: semver_GreaterThan_def semver_Compare_key)

section \<open>Resolution by name\<close>

lemma latest_step_skip: "\<not> eligible name sr \<Longrightarrow> latest_step name best sr = best"
  by (auto simp: latest_step_def eligible_def split: option.splits)

lemma latest_step_eligible:
  "eligible name sr \<Longrightarrow>
   latest_step name best sr =
     (case best of
        None \<Rightarrow> Some (Server sr, version_of sr)
      | Some b \<Rightarrow> if semver_key (snd b) < semver_key (version_of sr)
                  then Some (Server sr, version_of sr) else best)"
  by (auto simp: latest_step_def eligible_def version_of_def semver_GreaterThan_key
      split: option.splits)

lemma foldl_latest_step_filter:
  "foldl (latest_step name) best servers =
   foldl (latest_step name) best (filter (eligible name) servers)"
  by (induction servers arbitrary: best) (simp_all add: latest_step_skip)

lemma foldl_latest_step_first_maximum:
  assumes "\<forall>sr \<in> set cs. eligible name sr" and "cs \<noteq> []"
  shows "\<exists>i < length cs.
           foldl (latest_step name) None cs = Some (Server (cs ! i), version_of (cs ! i))
           \<and> (\<forall>j < length cs. semver_key (version_of (cs ! j)) \<le> semver_key (version_of (cs ! i)))
           \<and> (\<forall>j < i. semver_key (version_of (cs ! j)) < semver_key (version_of (cs ! i)))"
  using assms
proof (induction cs rule: rev_induct)
  case Nil
  then show ?case by simp
next
  case (snoc x xs)
  have ex: "eligible name x"
    using snoc.prems by simp
  show ?case
  proof (cases "xs = []")
    case True
    then show ?thesis
      by (simp add: latest_step_eligible [OF ex])
  next
    case False
    with snoc obtain i where i: "i < length xs"
      and best: "foldl (latest_step name) None xs = Some (Server (xs ! i), version_of (xs ! i))"
      and top: "\<forall>j < length xs. semver_key (version_of (xs ! j)) \<le> semver_key (version_of (xs ! i))"
      and first: "\<forall>j < i. semver_key (version_of (xs ! j)) < semver_key (version_of (xs ! i))"
      by auto
    show ?thesis
    proof (cases "semver_key (version_of (xs ! i)) < semver_key (version_of x)")
      case True
      have "foldl (latest_step name) None (xs @ [x]) = Some (Server x, version_of x)"
        using True by (simp add: best latest_step_eligible [OF ex])
      moreover have "\<forall>j < length xs. semver_key (version_of (xs ! j)) < semver_key (version_of x)"
        using top True by (meson le_less_trans)
      ultimately show ?thesis
        by (intro exI [of _ "length xs"]) (auto simp: nth_append less_Suc_eq intro: less_imp_le)
    next
      case False
      have "foldl (latest_step name) None (xs @ [x]) = Some (Server (xs ! i), version_of (xs ! i))"
        using False by (simp add: best latest_step_eligible [OF ex])
      moreover have "semver_key (version_of x) \<le> semver_key (version_of (xs ! i))"
        using False by simp
      ultimately show ?thesis
        using i top first
        by (intro exI [of _ i]) (auto simp: nth_append less_Suc_eq)
    qed
  qed
qed

lemma latest_active_characterised:
  "(filter (eligible name) servers = [] \<longrightarrow> latest_active name servers = None)
   \<and> (filter (eligible name) servers \<noteq> [] \<longrightarrow>
        (\<exists>i < length (filter (eligible name) servers).
           latest_active name servers = Some (Server (filter (eligible name) servers ! i))
           \<and> eligible name (filter (eligible name) servers ! i)
           \<and> (\<forall>j < length (filter (eligible name) servers).
                 semver_Compare (version_of (filter (eligible name) servers ! j))
                   (version_of (filter (eligible name) servers ! i)) \<le> 0)
           \<and> (\<forall>j < i.
                 semver_Compare (version_of (filter (eligible name) servers ! j))
                   (version_of (filter (eligible name) servers ! i)) < 0)))"
proof (intro conjI impI)
  assume "filter (eligible name) servers = []"
  then show "latest_active name servers = None"
    by (simp add: latest_active_def foldl_latest_step_filter [of name None servers])
next
  let ?cs = "filter (eligible name) servers"
  assume ne: "?cs \<noteq> []"
  have all: "\<forall>sr \<in> set ?cs. eligible name sr"
    by simp
  from foldl_latest_step_first_maximum [OF all ne]
  obtain i where i: "i < length ?cs"
    and best: "foldl (latest_step name) None ?cs = Some (Server (?cs ! i), version_of (?cs ! i))"
    and top: "\<forall>j < length ?cs. semver_key (version_of (?cs ! j)) \<le> semver_key (version_of (?cs ! i))"
    and first: "\<forall>j < i. semver_key (version_of (?cs ! j)) < semver_key (version_of (?cs ! i))"
    by blast
  have "latest_active name servers = Some (Server (?cs ! i))"
    by (simp add: latest_active_def foldl_latest_step_filter [of name None servers] best)
  moreover have "eligible name (?cs ! i)"
    using i all nth_mem by blast
  ultimately show "\<exists>i < length ?cs.
           latest_active name servers = Some (Server (?cs ! i))
           \<and> eligible name (?cs ! i)
           \<and> (\<forall>j < length ?cs. semver_Compare (version_of (?cs ! j)) (version_of (?cs ! i)) \<le> 0)
           \<and> (\<forall>j < i. semver_Compare (version_of (?cs ! j)) (version_of (?cs ! i)) < 0)"
    using i top first by (auto simp: semver_Compare_le semver_Compare_less)
qed

lemma exact_matches_filter:
  "exact_matches name servers = filter (\<lambda>s. Name s = name) (map Server servers)"
proof -
  have "foldl (\<lambda>acc sr. if Name (Server sr) = name then acc @ [Server sr] else acc) acc servers =
        acc @ filter (\<lambda>s. Name s = name) (map Server servers)" for acc
    by (induction servers arbitrary: acc) simp_all
  then show ?thesis
    by (simp add: exact_matches_def)
qed

text \<open>
  C2. Whatever list the search request returns, \<open>ListByName\<close> returns exactly the records
  of that list whose name equals the name asked for, in the order of the list: the
  sublist that \<open>filter\<close> selects. A record whose name only contains the query is not in
  it. The client is left as the search request left it.
\<close>

theorem ListByName_exact_matches:
  assumes "fst (List L dec ctx (Some (search_options name)) c) = Inr (lr, resp)"
  shows "fst (ListByName L dec ctx name c) =
           Inr (filter (\<lambda>s. Name s = name) (map Server (Servers lr)), resp)
       \<and> snd (ListByName L dec ctx name c) = snd (List L dec ctx (Some (search_options name)) c)"
  using assms
  by (cases "List L dec ctx (Some (search_options name)) c")
     (auto simp: ListByName_def exact_matches_filter)


lemma nm_list: "fst (List simple_golib (table_decoder [(''body'', near_match_page)]) (Some None)
           (Some (search_options ''exact-name'')) search_client) =
      Inr (near_match_page, Some (newResponse simple_golib (ok_response ''body'')))"
  by code_simp

theorem ListByName_exact_matches_witness:
  "fst (ListByName simple_golib (table_decoder [(''body'', near_match_page)]) (Some None) ''exact-name''
          search_client) =
     Inr ([\<lparr>Name = ''exact-name'', Version = ''1.0.0'', Description = []\<rparr>],
          Some (newResponse simple_golib (ok_response ''body'')))"
  using ListByName_exact_matches [OF nm_list]
  by (simp add: near_match_page_def page_def entry_def)

text \<open>
  C1. Whatever list the search request returns, \<open>GetByNameLatestActiveVersion\<close> returns
  no record when no entry is eligible (exact name, metadata present with status active,
  version a semantic version). Otherwise it returns an eligible entry whose version is
  greater than or equal to that of every eligible entry and strictly greater than that
  of every eligible entry before it in the order of the list: the first of the entries
  with the greatest version.
\<close>

theorem GetByNameLatestActiveVersion_selects:
  assumes "fst (List L dec ctx (Some (search_options name)) c) = Inr (lr, resp)"
  shows "\<exists>r. fst (GetByNameLatestActiveVersion L dec ctx name c) = Inr (r, resp)
     \<and> (candidates name lr = [] \<longrightarrow> r = None)
     \<and> (candidates name lr \<noteq> [] \<longrightarrow>
          (\<exists>i < length (candidates name lr).
             r = Some (Server (candidates name lr ! i))
             \<and> eligible name (candidates name lr ! i)
             \<and> (\<forall>j < length (candidates name lr).
                   semver_Compare (version_of (candidates name lr ! j))
                     (version_of (candidates name lr ! i)) \<le> 0)
             \<and> (\<forall>j < i.
                   semver_Compare (version_of (candidates name lr ! j))
                     (version_of (candidates name lr ! i)) < 0)))"
proof -
  have "fst (GetByNameLatestActiveVersion L dec ctx name c) = Inr (latest_active name (Servers lr), resp)"
    using assms
    by (cases "List L dec ctx (Some (search_options name)) c")
       (auto simp: GetByNameLatestActiveVersion_def)
  then show ?thesis
    using latest_active_characterised [of name "Servers lr"]
    by (simp add: candidates_def)
qed

lemma vp_list: "fst (List simple_golib (table_decoder [(''body'', versions_page)]) (Some None)
           (Some (search_options ''test-server'')) search_client) =
      Inr (versions_page, Some (newResponse simple_golib (ok_response ''body'')))"
  by code_simp

lemma vp_candidates: "candidates ''test-server'' versions_page =
    [entry ''test-server'' ''1.0.0'' ''active'', entry ''test-server'' ''1.5.0'' ''active'',
     entry ''test-server'' ''1.5.0+build.7'' ''active'']"
  by code_simp

lemma vp_cmp:
  "semver_Compare (version_of (entry ''test-server'' ''1.5.0'' ''active''))
     (version_of (entry ''test-server'' ''1.0.0'' ''active'')) = 1"
  "semver_Compare (version_of (entry ''test-server'' ''1.5.0'' ''active''))
     (version_of (entry ''test-server'' ''1.5.0+build.7'' ''active'')) = 0"
  by code_simp+

theorem GetByNameLatestActiveVersion_selects_witness:
  "fst (GetByNameLatestActiveVersion simple_golib (table_decoder [(''body'', versions_page)]) (Some None)
          ''test-server'' search_client) =
     Inr (Some \<lparr>Name = ''test-server'', Version = ''1.5.0'', Description = []\<rparr>,
          Some (newResponse simple_golib (ok_response ''body'')))"
proof -
  from GetByNameLatestActiveVersion_selects [OF vp_list]
  obtain r i where r: "fst (GetByNameLatestActiveVersion simple_golib (table_decoder [(''body'', versions_page)])
        (Some None) ''test-server'' search_client) =
        Inr (r, Some (newResponse simple_golib (ok_response ''body'')))"
    and i: "i < 3" "r = Some (Server (candidates ''test-server'' versions_page ! i))"
    and top: "\<forall>j < 3. semver_Compare (version_of (candidates ''test-server'' versions_page ! j))
                     (version_of (candidates ''test-server'' versions_page ! i)) \<le> 0"
    and first: "\<forall>j < i. semver_Compare (version_of (candidates ''test-server'' versions_page ! j))
                     (version_of (candidates ''test-server'' versions_page ! i)) < 0"
    by (auto simp: vp_candidates)
  have "i = 0 \<or> i = 1 \<or> i = 2"
    using i(1) by auto
  then have "i = 1"
  proof (elim disjE)
    assume "i = 0"
    with top [rule_format, of 1] show ?thesis
      by (simp add: vp_candidates vp_cmp)
  next
    assume "i = 2"
    with first [rule_format, of 1] show ?thesis
      by (simp add: vp_candidates vp_cmp)
  qed
  then show ?thesis
    by (simp add: r i(2) vp_candidates entry_def)
qed

section \<open>Page size\<close>














section \<open>Single-record fetches\<close>

lemma fetch_request_ok:
  "\<not> isl (NewRequest L ''GET'' (version_path L name version) None c) \<Longrightarrow>
   NewRequest L ''GET'' (version_path L name version) None c = Inr (fetch_request L c name version)"
  by (cases "NewRequest L ''GET'' (version_path L name version) None c")
     (simp_all add: fetch_request_def)




text \<open>
  C10. When the server answers a single-record fetch with a 2xx status and the body
  \<open>null\<close>, which the JSON decoder turns into a nil pointer without an error, \<open>Get\<close> and
  \<open>GetByNameExactVersion\<close> return no record and no error, although the status is not 404.
\<close>

theorem single_fetch_null_body:
  assumes "NewRequest L ''GET'' (version_path L name (requested_version opts)) None c = Inr req"
    and "client c (wire c) (req\<lparr>req_ctx := Some cx\<rparr>) = Inr resp"
    and "200 \<le> StatusCode resp" and "StatusCode resp \<le> 299"
    and "Body resp = ''null''" and "dec ''null'' None = (None, None)"
  shows "fst (Get L dec (Some cx) name opts c) = Inr (None, Some (newResponse L resp))
       \<and> fst (GetByNameExactVersion L dec (Some cx) name (requested_version opts) c) =
           Inr (None, Some (newResponse L resp))"
proof -
  have ok: "CheckResponse L resp = None"
    using assms(3,4) by (simp add: CheckResponse_def)
  have d: "Decode dec (Body resp) None = (None, None)"
    using assms(5,6) by (simp add: Decode_def json_space_def)
  show ?thesis
    by (simp add: Get_def GetByNameExactVersion_def assms(1) Do_response [OF assms(2)] ok d
        unwrap_server_def)
qed

theorem single_fetch_null_body_witness:
  "fst (Get simple_golib null_decoder (Some None) ''test/server'' None
          (test_client [Inr (ok_response ''null'')])) =
     Inr (None, Some (newResponse simple_golib (ok_response ''null'')))
   \<and> fst (GetByNameExactVersion simple_golib null_decoder (Some None) ''test/server'' ''1.0.0''
          (test_client [Inr (ok_response ''null'')])) =
     Inr (None, Some (newResponse simple_golib (ok_response ''null'')))"
proof -
  let ?c = "test_client [Inr (ok_response ''null'')]"
  have v1: "requested_version None = ''latest''"
    and v2: "requested_version (Some \<lparr>get_Version = ''1.0.0''\<rparr>) = ''1.0.0''"
    by (simp_all add: requested_version_def)
  have "\<not> isl (NewRequest simple_golib ''GET'' (version_path simple_golib ''test/server'' ''latest'') None ?c)"
    by code_simp
  then have n1: "NewRequest simple_golib ''GET''
      (version_path simple_golib ''test/server'' (requested_version None)) None ?c =
      Inr (fetch_request simple_golib ?c ''test/server'' ''latest'')"
    unfolding v1 by (rule fetch_request_ok)
  have "\<not> isl (NewRequest simple_golib ''GET'' (version_path simple_golib ''test/server'' ''1.0.0'') None ?c)"
    by code_simp
  then have n2: "NewRequest simple_golib ''GET''
      (version_path simple_golib ''test/server'' (requested_version (Some \<lparr>get_Version = ''1.0.0''\<rparr>))) None ?c =
      Inr (fetch_request simple_golib ?c ''test/server'' ''1.0.0'')"
    unfolding v2 by (rule fetch_request_ok)
  have a: "client ?c (wire ?c) (q\<lparr>req_ctx := Some None\<rparr>) = Inr (ok_response ''null'')" for q
    by (simp add: test_client_def scripted_def)
  have s: "200 \<le> StatusCode (ok_response ''null'')" "StatusCode (ok_response ''null'') \<le> 299"
    "Body (ok_response ''null'') = ''null''"
    by (simp_all add: ok_response_def)
  have n: "null_decoder ''null'' None = (None, None)"
    by (simp add: null_decoder_def table_decoder_def)
  show ?thesis
    using single_fetch_null_body [where dec = null_decoder and opts = None, OF n1 a s n]
      single_fetch_null_body [where dec = null_decoder and opts = "Some \<lparr>get_Version = ''1.0.0''\<rparr>",
        OF n2 a s n]
    by (simp add: v1 v2)
qed

end
